theory Spec2Isabelle
  imports Main
begin

section \<open>temporal-mcp: the two tool handlers of main.go\<close>

text \<open>
  The program registers two tool handlers, \<open>list_workflows\<close> and \<open>describe_workflow\<close>
  (main.go, lines 72-144 and 147-194), and one helper, \<open>workflowStatusToString\<close>
  (lines 204-223). Each handler reads its arguments from a \<open>map[string]interface{}\<close>,
  makes at most one call on the Temporal client, possibly writes one log line, and returns
  a pair \<open>(*mcp.CallToolResult, error)\<close>.

  The handlers are embedded as pure functions that return the list of effects they
  performed (client calls and log lines, in order) together with the returned pair.
  The Temporal client is a record of functions, so that any backend behaviour, a fake one
  included, can be plugged in. Two functions of the Go standard library whose behaviour is
  not part of this repository, \<open>strings.ToLower\<close> and the RFC 3339 rendering of a time,
  are parameters as well: every general theorem below holds for whatever these functions
  compute, and states as a hypothesis the little it needs from them.
\<close>

subsection \<open>Values of type interface{} and the argument map\<close>

text \<open>
  A tool argument is a decoded JSON value. Only the distinction between a string and
  anything else matters to the handlers; the payload of a number is kept as an integer.
\<close>

datatype go_value =
    GoNil
  | GoString string
  | GoBool bool
  | GoNumber int
  | GoSlice "go_value list"
  | GoMap "(string \<times> go_value) list"

type_synonym Arguments = "string \<rightharpoonup> go_value"

text \<open>
  \<open>v, ok := m[key].(string)\<close>: a missing key reads as the nil interface, and the
  assertion on anything but a string yields the empty string and \<open>false\<close>.
\<close>

fun string_assertion :: "go_value option \<Rightarrow> string \<times> bool" where
  "string_assertion (Some (GoString s)) = (s, True)"
| "string_assertion _ = ([], False)"

subsection \<open>Tool results (mcp-go)\<close>

datatype Content = TextContent string

record CallToolResult =
  Content :: "Content list"
  IsError :: bool

definition NewToolResultText :: "string \<Rightarrow> CallToolResult" where
  "NewToolResultText txt = \<lparr>Content = [TextContent txt], IsError = False\<rparr>"

definition NewToolResultError :: "string \<Rightarrow> CallToolResult" where
  "NewToolResultError txt = \<lparr>Content = [TextContent txt], IsError = True\<rparr>"

subsection \<open>Temporal API messages\<close>

datatype WorkflowExecutionStatus =
    WORKFLOW_EXECUTION_STATUS_UNSPECIFIED
  | WORKFLOW_EXECUTION_STATUS_RUNNING
  | WORKFLOW_EXECUTION_STATUS_COMPLETED
  | WORKFLOW_EXECUTION_STATUS_FAILED
  | WORKFLOW_EXECUTION_STATUS_CANCELED
  | WORKFLOW_EXECUTION_STATUS_TERMINATED
  | WORKFLOW_EXECUTION_STATUS_CONTINUED_AS_NEW
  | WORKFLOW_EXECUTION_STATUS_TIMED_OUT
  | WORKFLOW_EXECUTION_STATUS_other int

record WorkflowExecution =
  WorkflowId :: string
  RunId :: string

record WorkflowType =
  Name :: string

record Timestamp =
  Seconds :: int
  Nanos :: int

text \<open>Message-typed fields are pointers in Go and may be nil: they are options here.\<close>

record WorkflowExecutionInfo =
  Execution :: "WorkflowExecution option"
  Type :: "WorkflowType option"
  StartTime :: "Timestamp option"
  CloseTime :: "Timestamp option"
  Status :: WorkflowExecutionStatus

text \<open>The generated getters accept a nil receiver and then return the zero value.\<close>

definition GetExecution :: "WorkflowExecutionInfo option \<Rightarrow> WorkflowExecution option" where
  "GetExecution x = (case x of None \<Rightarrow> None | Some i \<Rightarrow> Execution i)"

definition GetType :: "WorkflowExecutionInfo option \<Rightarrow> WorkflowType option" where
  "GetType x = (case x of None \<Rightarrow> None | Some i \<Rightarrow> Type i)"

definition GetStartTime :: "WorkflowExecutionInfo option \<Rightarrow> Timestamp option" where
  "GetStartTime x = (case x of None \<Rightarrow> None | Some i \<Rightarrow> StartTime i)"

definition GetCloseTime :: "WorkflowExecutionInfo option \<Rightarrow> Timestamp option" where
  "GetCloseTime x = (case x of None \<Rightarrow> None | Some i \<Rightarrow> CloseTime i)"

definition GetStatus :: "WorkflowExecutionInfo option \<Rightarrow> WorkflowExecutionStatus" where
  "GetStatus x = (case x of None \<Rightarrow> WORKFLOW_EXECUTION_STATUS_UNSPECIFIED | Some i \<Rightarrow> Status i)"

definition GetWorkflowId :: "WorkflowExecution option \<Rightarrow> string" where
  "GetWorkflowId x = (case x of None \<Rightarrow> [] | Some e \<Rightarrow> WorkflowId e)"

definition GetRunId :: "WorkflowExecution option \<Rightarrow> string" where
  "GetRunId x = (case x of None \<Rightarrow> [] | Some e \<Rightarrow> RunId e)"

definition GetName :: "WorkflowType option \<Rightarrow> string" where
  "GetName x = (case x of None \<Rightarrow> [] | Some t \<Rightarrow> Name t)"

definition GetSeconds :: "Timestamp option \<Rightarrow> int" where
  "GetSeconds x = (case x of None \<Rightarrow> 0 | Some t \<Rightarrow> Seconds t)"

definition GetNanos :: "Timestamp option \<Rightarrow> int" where
  "GetNanos x = (case x of None \<Rightarrow> 0 | Some t \<Rightarrow> Nanos t)"

text \<open>
  The two list requests share their first four fields. The \<open>Filters\<close> field is a oneof:
  nil, or a wrapper around a pointer to the filter message, which may itself be nil.
  \<open>StatusFilter None\<close> is the wrapper the handler builds at lines 104-106, with its inner
  message left unset.
\<close>

record StartTimeFilter =
  EarliestTime :: "Timestamp option"
  LatestTime :: "Timestamp option"

datatype ListOpen_Filters =
    Open_ExecutionFilter "WorkflowExecution option"
  | Open_TypeFilter "WorkflowType option"

datatype ListClosed_Filters =
    ExecutionFilter "WorkflowExecution option"
  | TypeFilter "WorkflowType option"
  | StatusFilter "WorkflowExecutionStatus option"

record ListWorkflowExecutionsRequest =
  Namespace :: string
  MaximumPageSize :: int
  NextPageToken :: string
  StartTimeFilter :: "StartTimeFilter option"

record ListOpenWorkflowExecutionsRequest = ListWorkflowExecutionsRequest +
  OpenFilters :: "ListOpen_Filters option"

record ListClosedWorkflowExecutionsRequest = ListWorkflowExecutionsRequest +
  Filters :: "ListClosed_Filters option"

text \<open>
  Both list responses have the same two fields. The elements of \<open>Executions\<close> are
  pointers, hence options.
\<close>

record ListWorkflowExecutionsResponse =
  Executions :: "WorkflowExecutionInfo option list"
  ResponseNextPageToken :: string

record DescribeWorkflowExecutionResponse =
  ResponseWorkflowExecutionInfo :: "WorkflowExecutionInfo option"

definition GetExecutions :: "ListWorkflowExecutionsResponse option \<Rightarrow> WorkflowExecutionInfo option list" where
  "GetExecutions x = (case x of None \<Rightarrow> [] | Some r \<Rightarrow> Executions r)"

definition GetWorkflowExecutionInfo :: "DescribeWorkflowExecutionResponse option \<Rightarrow> WorkflowExecutionInfo option" where
  "GetWorkflowExecutionInfo x = (case x of None \<Rightarrow> None | Some r \<Rightarrow> ResponseWorkflowExecutionInfo r)"

subsection \<open>The Temporal client and the effects of a handler\<close>

text \<open>
  A Go error is represented by the text its \<open>Error()\<close> method returns, which is all that
  \<open>%v\<close> prints of it. A client method returns a pair (response pointer, error); the
  handlers test the error first and read the response through nil-safe getters, so all
  four combinations are kept.
\<close>

type_synonym go_error = string

record client =
  ListOpenWorkflow ::
    "ListOpenWorkflowExecutionsRequest \<Rightarrow> ListWorkflowExecutionsResponse option \<times> go_error option"
  ListClosedWorkflow ::
    "ListClosedWorkflowExecutionsRequest \<Rightarrow> ListWorkflowExecutionsResponse option \<times> go_error option"
  DescribeWorkflowExecution ::
    "string \<Rightarrow> string \<Rightarrow> DescribeWorkflowExecutionResponse option \<times> go_error option"

text \<open>
  What a handler does besides returning: the client calls with their requests, and
  \<open>log.Printf\<close> with its format and the arguments it is given (an error by its text).
\<close>

datatype event =
    Call_ListOpenWorkflow ListOpenWorkflowExecutionsRequest
  | Call_ListClosedWorkflow ListClosedWorkflowExecutionsRequest
  | Call_DescribeWorkflowExecution string string
  | Log_Printf string "string list"

fun is_client_call :: "event \<Rightarrow> bool" where
  "is_client_call (Log_Printf f as) = False"
| "is_client_call _ = True"

subsection \<open>Standard-library functions taken as parameters\<close>

text \<open>
  \<open>strings_ToLower\<close> stands for \<open>strings.ToLower\<close>, and \<open>format_RFC3339 s n\<close> for
  \<open>time.Unix(s, n).UTC().Format(time.RFC3339)\<close>, which is what
  \<open>ts.AsTime().UTC().Format(time.RFC3339)\<close> computes from the seconds and nanoseconds of
  a timestamp (both read through nil-safe getters, so a nil timestamp is the epoch).
\<close>

record stdlib =
  strings_ToLower :: "string \<Rightarrow> string"
  format_RFC3339 :: "int \<Rightarrow> int \<Rightarrow> string"

definition AsTime_Format :: "stdlib \<Rightarrow> Timestamp option \<Rightarrow> string" where
  "AsTime_Format L ts = format_RFC3339 L (GetSeconds ts) (GetNanos ts)"

text \<open>The verb \<open>%d\<close> of \<open>fmt.Sprintf\<close> on a length: decimal digits, no padding.\<close>

fun format_decimal :: "nat \<Rightarrow> string" where
  "format_decimal n =
     (if n < 10 then [''0123456789'' ! n]
      else format_decimal (n div 10) @ [''0123456789'' ! (n mod 10)])"

declare format_decimal.simps [simp del]

subsection \<open>workflowStatusToString (lines 204-223)\<close>

fun workflowStatusToString :: "WorkflowExecutionStatus \<Rightarrow> string" where
  "workflowStatusToString WORKFLOW_EXECUTION_STATUS_RUNNING = ''Running''"
| "workflowStatusToString WORKFLOW_EXECUTION_STATUS_COMPLETED = ''Completed''"
| "workflowStatusToString WORKFLOW_EXECUTION_STATUS_FAILED = ''Failed''"
| "workflowStatusToString WORKFLOW_EXECUTION_STATUS_CANCELED = ''Canceled''"
| "workflowStatusToString WORKFLOW_EXECUTION_STATUS_TERMINATED = ''Terminated''"
| "workflowStatusToString WORKFLOW_EXECUTION_STATUS_CONTINUED_AS_NEW = ''ContinuedAsNew''"
| "workflowStatusToString WORKFLOW_EXECUTION_STATUS_TIMED_OUT = ''TimedOut''"
| "workflowStatusToString _ = ''Unknown''"

subsection \<open>The list\_workflows handler (lines 72-144)\<close>

text \<open>Lines 84-92: the query for open executions.\<close>

definition open_request :: "string \<Rightarrow> ListOpenWorkflowExecutionsRequest" where
  "open_request temporalNamespace =
     \<lparr>Namespace = temporalNamespace, MaximumPageSize = 100, NextPageToken = [],
      StartTimeFilter = None, OpenFilters = None\<rparr>"

definition list_open ::
  "client \<Rightarrow> string \<Rightarrow> event list \<times> (CallToolResult + WorkflowExecutionInfo option list)" where
  "list_open c temporalNamespace =
     (case ListOpenWorkflow c (open_request temporalNamespace) of
        (resp, Some err) \<Rightarrow>
          ([Call_ListOpenWorkflow (open_request temporalNamespace),
            Log_Printf ''Error listing running workflows: %v'' [err]],
           Inl (NewToolResultError (''Failed to list running workflows: '' @ err)))
      | (resp, None) \<Rightarrow>
          ([Call_ListOpenWorkflow (open_request temporalNamespace)],
           Inr (GetExecutions resp)))"

text \<open>
  Lines 94-112: the query for closed executions. The computation of \<open>closeStatus\<close>
  and the inner \<open>StatusFilter\<close> message are commented out in the source, so the request
  does not depend on \<open>statusFilter\<close>; only the messages do.
\<close>

definition closed_request :: "string \<Rightarrow> ListClosedWorkflowExecutionsRequest" where
  "closed_request temporalNamespace =
     \<lparr>Namespace = temporalNamespace, MaximumPageSize = 100, NextPageToken = [],
      StartTimeFilter = None, Filters = Some (StatusFilter None)\<rparr>"

definition list_closed ::
  "client \<Rightarrow> string \<Rightarrow> string \<Rightarrow> event list \<times> (CallToolResult + WorkflowExecutionInfo option list)" where
  "list_closed c temporalNamespace statusFilter =
     (case ListClosedWorkflow c (closed_request temporalNamespace) of
        (resp, Some err) \<Rightarrow>
          ([Call_ListClosedWorkflow (closed_request temporalNamespace),
            Log_Printf ''Error listing %s workflows: %v'' [statusFilter, err]],
           Inl (NewToolResultError (''Failed to list '' @ statusFilter @ '' workflows: '' @ err)))
      | (resp, None) \<Rightarrow>
          ([Call_ListClosedWorkflow (closed_request temporalNamespace)],
           Inr (GetExecutions resp)))"

text \<open>
  Lines 81-116: the dispatch on the lower-cased status. The result is either the tool
  result of an early return or the value of the variable \<open>executions\<close>.
\<close>

definition list_executions ::
  "client \<Rightarrow> string \<Rightarrow> string \<Rightarrow> string \<Rightarrow>
     event list \<times> (CallToolResult + WorkflowExecutionInfo option list)" where
  "list_executions c temporalNamespace statusVal statusFilter =
     (if statusFilter = ''running'' then list_open c temporalNamespace
      else if statusFilter = ''completed'' \<or> statusFilter = ''failed'' then
        list_closed c temporalNamespace statusFilter
      else
        ([], Inl (NewToolResultError
           (''Unsupported status '' @ [CHR 0x27] @ statusVal @ [CHR 0x27]
              @ '' (use running, completed, or failed)''))))"

text \<open>Lines 125-141: what one iteration of the loop writes to the builder.\<close>

definition execution_line :: "stdlib \<Rightarrow> WorkflowExecutionInfo option \<Rightarrow> string" where
  "execution_line L info =
     (let id = GetWorkflowId (GetExecution info);
          runID = GetRunId (GetExecution info);
          wfType = GetName (GetType info);
          start = AsTime_Format L (GetStartTime info);
          statusStr = workflowStatusToString (GetStatus info)
      in if GetCloseTime info \<noteq> None then
           ''- ID: '' @ id @ '' | Run: '' @ runID @ '' | Type: '' @ wfType
             @ '' | Status: '' @ statusStr @ '' | Start: '' @ start
             @ '' | End: '' @ AsTime_Format L (GetCloseTime info) @ [CHR 0x0A]
         else
           ''- ID: '' @ id @ '' | Run: '' @ runID @ '' | Type: '' @ wfType
             @ '' | Status: '' @ statusStr @ '' | Start: '' @ start @ [CHR 0x0A])"

text \<open>Lines 124-142: the loop, with the builder's content passed along.\<close>

fun write_executions :: "stdlib \<Rightarrow> string \<Rightarrow> WorkflowExecutionInfo option list \<Rightarrow> string" where
  "write_executions L outputBuilder [] = outputBuilder"
| "write_executions L outputBuilder (info # rest) =
     write_executions L (outputBuilder @ execution_line L info) rest"

text \<open>Lines 118-143: the output built from the retrieved executions.\<close>

definition render_list :: "stdlib \<Rightarrow> string \<Rightarrow> WorkflowExecutionInfo option list \<Rightarrow> CallToolResult" where
  "render_list L statusFilter executions =
     (if length executions = 0 then
        NewToolResultText (''No '' @ statusFilter @ '' workflows found.'')
      else
        NewToolResultText
          (write_executions L
             (''Found '' @ format_decimal (length executions) @ '' '' @ statusFilter
                @ '' workflow(s):'' @ [CHR 0x0A])
             executions))"

text \<open>The handler: effects, then the returned pair (result pointer, error).\<close>

definition list_workflows ::
  "stdlib \<Rightarrow> client \<Rightarrow> string \<Rightarrow> Arguments \<Rightarrow>
     event list \<times> CallToolResult option \<times> go_error option" where
  "list_workflows L c temporalNamespace arguments =
     (case string_assertion (arguments ''status'') of
        (statusVal, ok) \<Rightarrow>
          if \<not> ok \<or> statusVal = [] then
            ([], Some (NewToolResultError ''Missing or invalid 'status' parameter''), None)
          else
            let statusFilter = strings_ToLower L statusVal in
            (case list_executions c temporalNamespace statusVal statusFilter of
               (evs, Inl early) \<Rightarrow> (evs, Some early, None)
             | (evs, Inr executions) \<Rightarrow>
                 (evs, Some (render_list L statusFilter executions), None)))"

subsection \<open>The describe\_workflow handler (lines 147-194)\<close>

text \<open>Lines 168-193: the details of a non-nil \<open>info\<close>, as a multi-line text.\<close>

definition render_detail :: "stdlib \<Rightarrow> WorkflowExecutionInfo \<Rightarrow> string" where
  "render_detail L info =
     (let id = GetWorkflowId (Execution info);
          run = GetRunId (Execution info);
          wfType = GetName (Type info);
          statusStr = workflowStatusToString (Status info);
          startTime = (if StartTime info \<noteq> None then AsTime_Format L (StartTime info) else []);
          endTime = (if CloseTime info \<noteq> None then AsTime_Format L (CloseTime info) else []);
          outputBuilder = ''Workflow Execution Details:'' @ [CHR 0x0A];
          outputBuilder = outputBuilder @ ''Workflow ID: '' @ id @ [CHR 0x0A];
          outputBuilder = outputBuilder @ ''Run ID: '' @ run @ [CHR 0x0A];
          outputBuilder = outputBuilder @ ''Type: '' @ wfType @ [CHR 0x0A];
          outputBuilder = outputBuilder @ ''Status: '' @ statusStr @ [CHR 0x0A];
          outputBuilder = outputBuilder @ ''Start Time: '' @ startTime @ [CHR 0x0A]
      in if endTime \<noteq> [] then outputBuilder @ ''End Time: '' @ endTime @ [CHR 0x0A]
         else outputBuilder)"

definition describe_workflow ::
  "stdlib \<Rightarrow> client \<Rightarrow> Arguments \<Rightarrow> event list \<times> CallToolResult option \<times> go_error option" where
  "describe_workflow L c arguments =
     (case string_assertion (arguments ''workflow_id'') of
        (wfID, ok) \<Rightarrow>
          if \<not> ok \<or> wfID = [] then
            ([], Some (NewToolResultError ''Missing or invalid 'workflow_id' parameter''), None)
          else
            let runID = fst (string_assertion (arguments ''run_id'')) in
            (case DescribeWorkflowExecution c wfID runID of
               (resp, Some err) \<Rightarrow>
                 ([Call_DescribeWorkflowExecution wfID runID,
                   Log_Printf ''Error describing workflow %q (run %q): %v'' [wfID, runID, err]],
                  Some (NewToolResultError (''Failed to describe workflow: '' @ err)), None)
             | (resp, None) \<Rightarrow>
                 (case GetWorkflowExecutionInfo resp of
                    None \<Rightarrow>
                      ([Call_DescribeWorkflowExecution wfID runID],
                       Some (NewToolResultError
                         ''No information available for the specified workflow''), None)
                  | Some info \<Rightarrow>
                      ([Call_DescribeWorkflowExecution wfID runID],
                       Some (NewToolResultText (render_detail L info)), None))))"

section \<open>Concrete instances for the examples\<close>

text \<open>
  The examples below run the handlers on concrete inputs. They use a byte-wise
  lower-casing of the letters A-Z, which is what \<open>strings.ToLower\<close> computes on ASCII
  text, the RFC 3339 rendering of a UTC instant of the years 0000 to 9999 (proleptic
  Gregorian calendar, seconds precision, suffix Z), and a fake backend over two lists of
  executions that honours the page bound and, when one is given, the status filter.
\<close>

definition lower_byte :: "char \<Rightarrow> char" where
  "lower_byte b =
     (case map_of (zip ''ABCDEFGHIJKLMNOPQRSTUVWXYZ'' ''abcdefghijklmnopqrstuvwxyz'') b of
        Some l \<Rightarrow> l
      | None \<Rightarrow> b)"

definition ToLower_ascii :: "string \<Rightarrow> string" where
  "ToLower_ascii s = map lower_byte s"

definition zero_pad :: "nat \<Rightarrow> nat \<Rightarrow> string" where
  "zero_pad w n = replicate (w - length (format_decimal n)) (CHR ''0'') @ format_decimal n"

definition civil_from_days :: "int \<Rightarrow> int \<times> nat \<times> nat" where
  "civil_from_days days =
     (let z = days + 719468;
          era = z div 146097;
          doe = z mod 146097;
          yoe = (doe - doe div 1460 + doe div 36524 - doe div 146096) div 365;
          doy = doe - (365 * yoe + yoe div 4 - yoe div 100);
          mp = (5 * doy + 2) div 153;
          d = doy - (153 * mp + 2) div 5 + 1;
          m = (if mp < 10 then mp + 3 else mp - 9);
          y = yoe + era * 400 + (if m \<le> 2 then 1 else 0)
      in (y, nat m, nat d))"

definition rfc3339_utc :: "int \<Rightarrow> int \<Rightarrow> string" where
  "rfc3339_utc sec nsec =
     (let t = sec + nsec div 1000000000;
          secs = nat (t mod 86400)
      in case civil_from_days (t div 86400) of
           (y, m, d) \<Rightarrow>
             (if y < 0 then ''-'' else []) @ zero_pad 4 (nat \<bar>y\<bar>) @ ''-'' @ zero_pad 2 m @ ''-''
               @ zero_pad 2 d @ ''T'' @ zero_pad 2 (secs div 3600) @ '':''
               @ zero_pad 2 (secs mod 3600 div 60) @ '':'' @ zero_pad 2 (secs mod 60) @ ''Z'')"

definition go_stdlib :: stdlib where
  "go_stdlib = \<lparr>strings_ToLower = ToLower_ascii, format_RFC3339 = rfc3339_utc\<rparr>"

fun closed_filter :: "ListClosed_Filters option \<Rightarrow> WorkflowExecutionInfo \<Rightarrow> bool" where
  "closed_filter (Some (StatusFilter (Some st))) i = (Status i = st)"
| "closed_filter _ i = True"

definition fake_client :: "WorkflowExecutionInfo list \<Rightarrow> WorkflowExecutionInfo list \<Rightarrow> client" where
  "fake_client opens closeds =
     \<lparr>ListOpenWorkflow = (\<lambda>req.
        (Some \<lparr>Executions = map Some (take (nat (MaximumPageSize req)) opens),
               ResponseNextPageToken = []\<rparr>, None)),
      ListClosedWorkflow = (\<lambda>req.
        (Some \<lparr>Executions =
                 map Some (take (nat (MaximumPageSize req)) (filter (closed_filter (Filters req)) closeds)),
               ResponseNextPageToken = []\<rparr>, None)),
      DescribeWorkflowExecution = (\<lambda>wfID runID.
        (case find (\<lambda>i. GetWorkflowId (Execution i) = wfID
                        \<and> (runID = [] \<or> GetRunId (Execution i) = runID)) (opens @ closeds) of
           None \<Rightarrow> (None, Some ''workflow execution not found'')
         | Some i \<Rightarrow> (Some \<lparr>ResponseWorkflowExecutionInfo = Some i\<rparr>, None)))\<rparr>"

definition execution ::
  "string \<Rightarrow> string \<Rightarrow> string \<Rightarrow> WorkflowExecutionStatus \<Rightarrow> int \<Rightarrow> int option \<Rightarrow> WorkflowExecutionInfo" where
  "execution wid rid ty st started closed =
     \<lparr>Execution = Some \<lparr>WorkflowId = wid, RunId = rid\<rparr>, Type = Some \<lparr>Name = ty\<rparr>,
      StartTime = Some \<lparr>Seconds = started, Nanos = 0\<rparr>,
      CloseTime = map_option (\<lambda>s. \<lparr>Seconds = s, Nanos = 0\<rparr>) closed, Status = st\<rparr>"

definition failing_client :: "go_error \<Rightarrow> client" where
  "failing_client e =
     \<lparr>ListOpenWorkflow = (\<lambda>req. (None, Some e)),
      ListClosedWorkflow = (\<lambda>req. (None, Some e)),
      DescribeWorkflowExecution = (\<lambda>wfID runID. (None, Some e))\<rparr>"

definition empty_response_client :: client where
  "empty_response_client =
     \<lparr>ListOpenWorkflow = (\<lambda>req. (None, None)),
      ListClosedWorkflow = (\<lambda>req. (None, None)),
      DescribeWorkflowExecution = (\<lambda>wfID runID.
        (Some \<lparr>ResponseWorkflowExecutionInfo = None\<rparr>, None))\<rparr>"

definition running_execution :: WorkflowExecutionInfo where
  "running_execution =
     execution ''order-3'' ''run-c'' ''OrderWorkflow'' WORKFLOW_EXECUTION_STATUS_RUNNING
       1704067200 None"

definition completed_execution :: WorkflowExecutionInfo where
  "completed_execution =
     execution ''order-1'' ''run-a'' ''OrderWorkflow'' WORKFLOW_EXECUTION_STATUS_COMPLETED
       1704067200 (Some 1704070800)"

definition failed_execution :: WorkflowExecutionInfo where
  "failed_execution =
     execution ''order-2'' ''run-b'' ''OrderWorkflow'' WORKFLOW_EXECUTION_STATUS_FAILED
       1704069000 (Some 1704069060)"

definition second_completed_execution :: WorkflowExecutionInfo where
  "second_completed_execution =
     execution ''order-0'' ''run-z'' ''OrderWorkflow'' WORKFLOW_EXECUTION_STATUS_COMPLETED
       1704067200 (Some 1704067260)"

text \<open>A running execution whose workflow id spans two lines.\<close>

definition two_line_id_execution :: WorkflowExecutionInfo where
  "two_line_id_execution =
     execution (''order-4'' @ [CHR 0x0A] @ ''End Time: never'') ''run-d'' ''OrderWorkflow''
       WORKFLOW_EXECUTION_STATUS_RUNNING 1704067200 None"

section \<open>Notions of the specification\<close>

text \<open>
  A caller-visible error result carrying a message: the result is flagged as an error and
  its content is one non-empty text.
\<close>

definition error_result :: "CallToolResult \<Rightarrow> bool" where
  "error_result r =
     (IsError r \<and> (case Content r of [TextContent msg] \<Rightarrow> msg \<noteq> [] | _ \<Rightarrow> False))"

text \<open>
  The Status Classifier. The handler has no separate function for it: it is the
  lower-casing of line 78 followed by the comparisons of lines 82 and 93, with the intent
  named. \<open>None\<close> is the rejection of line 113.
\<close>

datatype StatusIntent = Running | Completed | Failed

definition classify :: "stdlib \<Rightarrow> string \<Rightarrow> StatusIntent option" where
  "classify L statusVal =
     (let statusFilter = strings_ToLower L statusVal in
      if statusFilter = ''running'' then Some Running
      else if statusFilter = ''completed'' then Some Completed
      else if statusFilter = ''failed'' then Some Failed
      else None)"

text \<open>
  Reading a rendered text back: its lines, split at the newline byte (a final newline
  ends the last line and starts no further one), and the test a reader applies to find an
  \<open>End Time\<close> line.
\<close>

fun text_lines :: "string \<Rightarrow> string list" where
  "text_lines [] = []"
| "text_lines (ch # rest) =
     (if ch = CHR 0x0A then [] # text_lines rest
      else (case text_lines rest of [] \<Rightarrow> [[ch]] | l # ls \<Rightarrow> (ch # l) # ls))"

fun starts_with :: "string \<Rightarrow> string \<Rightarrow> bool" where
  "starts_with [] s = True"
| "starts_with (p # ps) [] = False"
| "starts_with (p # ps) (ch # rest) = (p = ch \<and> starts_with ps rest)"

definition has_end_time_line :: "string \<Rightarrow> bool" where
  "has_end_time_line txt = list_ex (starts_with ''End Time: '') (text_lines txt)"

text \<open>The identifier, run id and type name of an execution contain no line break.\<close>

definition single_line_fields :: "WorkflowExecutionInfo option \<Rightarrow> bool" where
  "single_line_fields info =
     (CHR 0x0A \<notin> set (GetWorkflowId (GetExecution info))
      \<and> CHR 0x0A \<notin> set (GetRunId (GetExecution info))
      \<and> CHR 0x0A \<notin> set (GetName (GetType info)))"

section \<open>Properties of the handlers\<close>

subsection \<open>Auxiliary facts\<close>

lemma error_result_NewToolResultError [simp]:
  "error_result (NewToolResultError msg) = (msg \<noteq> [])"
  by (simp add: error_result_def NewToolResultError_def)

lemma error_result_NewToolResultText [simp]:
  "\<not> error_result (NewToolResultText txt)"
  by (simp add: error_result_def NewToolResultText_def)

lemma string_assertion_cases:
  obtains (str) s where "v = Some (GoString s)" "string_assertion v = (s, True)"
  | (other) "\<forall>s. v \<noteq> Some (GoString s)" "string_assertion v = ([], False)"
  by (cases v rule: string_assertion.cases) auto

subsection \<open>Lines of a text\<close>

lemma text_lines_line:
  "CHR 0x0A \<notin> set l \<Longrightarrow> text_lines (l @ CHR 0x0A # rest) = l # text_lines rest"
  by (induction l) auto

lemma workflowStatusToString_single_line:
  "CHR 0x0A \<notin> set (workflowStatusToString st)"
  by (cases st) simp_all

lemma format_decimal_digits: "set (format_decimal n) \<subseteq> set ''0123456789''"
proof (induction n rule: format_decimal.induct)
  case (1 n)
  have d: "''0123456789'' ! k \<in> set ''0123456789''" if "k < 10" for k
    using that by (intro nth_mem) simp
  show ?case
  proof (cases "n < 10")
    case True
    with d [of n] show ?thesis
      by (subst format_decimal.simps) simp
  next
    case False
    have "n mod 10 < 10" by simp
    with False 1 d [of "n mod 10"] show ?thesis
      by (subst format_decimal.simps) simp
  qed
qed

lemma format_decimal_single_line: "CHR 0x0A \<notin> set (format_decimal n)"
  using format_decimal_digits [of n] by auto

lemma zero_pad_single_line: "CHR 0x0A \<notin> set (zero_pad w n)"
  by (simp add: zero_pad_def format_decimal_single_line)

lemma rfc3339_utc_single_line: "CHR 0x0A \<notin> set (rfc3339_utc sec nsec)"
  by (simp add: rfc3339_utc_def Let_def zero_pad_single_line split: prod.split)

lemma rfc3339_utc_nonempty: "rfc3339_utc sec nsec \<noteq> []"
  by (simp add: rfc3339_utc_def Let_def split: prod.split)

subsection \<open>C1: the status sub-filter of the closed-executions query\<close>

text \<open>
  The request for closed executions is the same for \<open>completed\<close> and for \<open>failed\<close>,
  and the status of its filter is unset: whatever the backend answers cannot depend on
  the intent.
\<close>

lemma list_closed_ignores_intent:
  "filter is_client_call (fst (list_closed c temporalNamespace statusFilter))
     = [Call_ListClosedWorkflow (closed_request temporalNamespace)]
   \<and> Filters (closed_request temporalNamespace) = Some (StatusFilter None)
   \<and> (snd (list_closed c temporalNamespace ''completed'') = Inr executions
        \<longleftrightarrow> snd (list_closed c temporalNamespace ''failed'') = Inr executions)"
  by (auto simp: list_closed_def closed_request_def split: prod.splits option.splits)

text \<open>
  C1 does not hold of the code. The comment of line 94 announces a query filtered by close
  status, but lines 95-100 and 105, which would set the status, are commented out. Against
  a backend that holds one completed and one failed execution and honours a status filter
  when one is set, \<open>list_workflows\<close> with status \<open>completed\<close> sends a filter without
  status and lists both executions, the failed one included.
\<close>

theorem list_workflows_completed_lists_failed:
  "list_workflows go_stdlib (fake_client [] [completed_execution, failed_execution]) ''default''
       [''status'' \<mapsto> GoString ''completed'']
     = ([Call_ListClosedWorkflow
           \<lparr>Namespace = ''default'', MaximumPageSize = 100, NextPageToken = [],
            StartTimeFilter = None, Filters = Some (StatusFilter None)\<rparr>],
        Some (NewToolResultText
          (''Found 2 completed workflow(s):'' @ [CHR 0x0A]
             @ ''- ID: order-1 | Run: run-a | Type: OrderWorkflow | Status: Completed''
             @ '' | Start: 2024-01-01T00:00:00Z | End: 2024-01-01T01:00:00Z'' @ [CHR 0x0A]
             @ ''- ID: order-2 | Run: run-b | Type: OrderWorkflow | Status: Failed''
             @ '' | Start: 2024-01-01T00:30:00Z | End: 2024-01-01T00:31:00Z'' @ [CHR 0x0A])),
        None)"
  by code_simp

theorem list_workflows_completed_lists_failed_witness:
  "fst (list_workflows go_stdlib (fake_client [] [completed_execution, failed_execution])
          ''default'' [''status'' \<mapsto> GoString ''completed''])
     = [Call_ListClosedWorkflow (closed_request ''default'')]
   \<and> Filters (closed_request ''default'') = Some (StatusFilter None)"
  by (simp add: list_workflows_completed_lists_failed closed_request_def)

subsection \<open>C2: no running workflows\<close>

text \<open>
  C2, as amended. The claim expects the text \<open>No running workflows found.\<close> followed by
  a newline; line 120 formats the message without one. When the status argument
  lower-cases to \<open>running\<close>, the open-executions query succeeds and yields no execution,
  the handler makes that single query and returns the successful text result
  \<open>No running workflows found.\<close>, with no trailing newline, and a nil error.
\<close>

theorem list_workflows_running_empty:
  assumes "arguments ''status'' = Some (GoString statusVal)"
    and "statusVal \<noteq> []"
    and "strings_ToLower L statusVal = ''running''"
    and "ListOpenWorkflow c (open_request temporalNamespace) = (resp, None)"
    and "GetExecutions resp = []"
  shows "list_workflows L c temporalNamespace arguments =
           ([Call_ListOpenWorkflow (open_request temporalNamespace)],
            Some (NewToolResultText ''No running workflows found.''), None)"
  using assms
  by (simp add: list_workflows_def Let_def list_executions_def list_open_def render_list_def)

theorem list_workflows_running_empty_witness:
  "list_workflows go_stdlib (fake_client [] []) ''default'' [''status'' \<mapsto> GoString ''running'']
     = ([Call_ListOpenWorkflow (open_request ''default'')],
        Some (NewToolResultText ''No running workflows found.''), None)"
  by (rule list_workflows_running_empty [where statusVal = "''running''"
        and resp = "Some \<lparr>Executions = [], ResponseNextPageToken = []\<rparr>"])
     (simp_all add: go_stdlib_def ToLower_ascii_def lower_byte_def fake_client_def GetExecutions_def)

theorem list_workflows_running_empty_newline_counterexample:
  "snd (list_workflows go_stdlib (fake_client [] []) ''default'' [''status'' \<mapsto> GoString ''running''])
     \<noteq> (Some (NewToolResultText (''No running workflows found.'' @ [CHR 0x0A])), None)"
  by (simp add: list_workflows_def Let_def list_executions_def list_open_def render_list_def
        go_stdlib_def ToLower_ascii_def lower_byte_def fake_client_def GetExecutions_def
        NewToolResultText_def open_request_def)

subsection \<open>C3: an unrecognised status is rejected\<close>

text \<open>
  C3. Whenever the \<open>status\<close> argument is missing, is not a string, is the empty string, or
  is a string whose lower-cased form is none of \<open>running\<close>, \<open>completed\<close>, \<open>failed\<close>, the
  handler \<open>list_workflows\<close> makes no client call and returns an error result carrying a
  message (and a nil Go error); it never returns a list.
\<close>

theorem list_workflows_rejects_unrecognized:
  assumes "\<forall>s. arguments ''status'' = Some (GoString s) \<longrightarrow>
             s = [] \<or> strings_ToLower L s \<notin> {''running'', ''completed'', ''failed''}"
  shows "\<exists>r. list_workflows L c temporalNamespace arguments = ([], Some r, None)
             \<and> error_result r"
proof (cases "arguments ''status''" rule: string_assertion_cases)
  case (str s)
  with assms have "s = [] \<or> strings_ToLower L s \<notin> {''running'', ''completed'', ''failed''}"
    by simp
  then show ?thesis
    using str by (auto simp: list_workflows_def Let_def list_executions_def)
next
  case other
  then show ?thesis
    by (simp add: list_workflows_def Let_def)
qed

theorem list_workflows_rejects_unrecognized_witness:
  "(\<exists>r. list_workflows go_stdlib (fake_client [] []) ''default''
            [''status'' \<mapsto> GoString ''Paused''] = ([], Some r, None) \<and> error_result r)
   \<and> (\<exists>r. list_workflows go_stdlib (fake_client [] []) ''default''
            [''status'' \<mapsto> GoString []] = ([], Some r, None) \<and> error_result r)
   \<and> (\<exists>r. list_workflows go_stdlib (fake_client [] []) ''default''
            [''status'' \<mapsto> GoNumber 3] = ([], Some r, None) \<and> error_result r)
   \<and> (\<exists>r. list_workflows go_stdlib (fake_client [] []) ''default''
            Map.empty = ([], Some r, None) \<and> error_result r)"
proof (intro conjI)
  show "\<exists>r. list_workflows go_stdlib (fake_client [] []) ''default''
            [''status'' \<mapsto> GoString ''Paused''] = ([], Some r, None) \<and> error_result r"
    by (rule list_workflows_rejects_unrecognized)
       (simp add: go_stdlib_def ToLower_ascii_def lower_byte_def)
qed (rule list_workflows_rejects_unrecognized, simp)+

subsection \<open>C4: classification and letter case\<close>

text \<open>The dispatch of lines 82-116 is the classification of the raw status.\<close>

lemma list_executions_classify:
  "list_executions c temporalNamespace statusVal (strings_ToLower L statusVal) =
     (case classify L statusVal of
        Some Running \<Rightarrow> list_open c temporalNamespace
      | Some Completed \<Rightarrow> list_closed c temporalNamespace ''completed''
      | Some Failed \<Rightarrow> list_closed c temporalNamespace ''failed''
      | None \<Rightarrow>
          ([], Inl (NewToolResultError
             (''Unsupported status '' @ [CHR 0x27] @ statusVal @ [CHR 0x27]
                @ '' (use running, completed, or failed)''))))"
  by (simp add: list_executions_def classify_def)

lemma lower_byte_idem: "lower_byte (lower_byte b) = lower_byte b"
  by (simp add: lower_byte_def)

lemma ToLower_ascii_idem: "ToLower_ascii (ToLower_ascii s) = ToLower_ascii s"
  by (simp add: ToLower_ascii_def lower_byte_idem)

text \<open>
  C4. Provided lower-casing the lower-cased string changes nothing (lower-casing is
  idempotent; the byte-wise instance is, by \<open>ToLower_ascii_idem\<close>), the classifier gives
  the same result, intent or rejection, on a raw status and on its lower-cased form. For a
  non-empty raw status that is recognised, the whole handler then behaves the same on the
  raw and on the lower-cased argument: same effects, same result.
\<close>

theorem classify_lower_cased:
  assumes "strings_ToLower L (strings_ToLower L raw) = strings_ToLower L raw"
  shows "classify L (strings_ToLower L raw) = classify L raw
         \<and> (raw \<noteq> [] \<and> classify L raw \<noteq> None \<longrightarrow>
              list_workflows L c temporalNamespace
                  (arguments(''status'' \<mapsto> GoString (strings_ToLower L raw)))
                = list_workflows L c temporalNamespace (arguments(''status'' \<mapsto> GoString raw)))"
proof (intro conjI impI)
  show "classify L (strings_ToLower L raw) = classify L raw"
    using assms by (simp add: classify_def)
next
  assume r: "raw \<noteq> [] \<and> classify L raw \<noteq> None"
  then have kw: "strings_ToLower L raw \<in> {''running'', ''completed'', ''failed''}"
    by (auto simp: classify_def Let_def split: if_splits)
  then have ne: "strings_ToLower L raw \<noteq> []"
    by auto
  from kw have same:
    "list_executions c temporalNamespace (strings_ToLower L raw) (strings_ToLower L raw)
       = list_executions c temporalNamespace raw (strings_ToLower L raw)"
    by (auto simp: list_executions_def)
  show "list_workflows L c temporalNamespace
            (arguments(''status'' \<mapsto> GoString (strings_ToLower L raw)))
          = list_workflows L c temporalNamespace (arguments(''status'' \<mapsto> GoString raw))"
    using r ne assms same by (simp add: list_workflows_def Let_def)
qed

theorem classify_lower_cased_witness:
  "classify go_stdlib ''running'' = classify go_stdlib ''RUNNING''
   \<and> classify go_stdlib ''failed'' = classify go_stdlib ''Failed''"
proof -
  have l: "strings_ToLower go_stdlib ''RUNNING'' = ''running''"
          "strings_ToLower go_stdlib ''Failed'' = ''failed''"
    by (simp_all add: go_stdlib_def ToLower_ascii_def lower_byte_def)
  have i: "strings_ToLower go_stdlib (strings_ToLower go_stdlib s) = strings_ToLower go_stdlib s"
    for s
    by (simp add: go_stdlib_def ToLower_ascii_idem)
  from classify_lower_cased [of go_stdlib "''RUNNING''", OF i]
       classify_lower_cased [of go_stdlib "''Failed''", OF i]
  show ?thesis
    by (simp add: l)
qed

subsection \<open>C5: every failure becomes an error result\<close>

text \<open>
  C5. Both handlers always return a non-nil result together with a nil Go error, whatever
  the arguments and whatever the client answers; the only effects of a handler are client
  calls and log lines (\<open>log.Fatalf\<close> occurs in \<open>main\<close> only, before the server starts).
  Each kind of failure yields an error result with a fixed, readable message: a missing,
  non-string or empty required argument; an unrecognised status; an error returned by the
  open, closed or describe query (a not-found answer of the backend is such an error);
  and a describe response without execution information.
\<close>

theorem tool_failures_become_error_results:
  "(\<exists>evs r. list_workflows L c temporalNamespace arguments = (evs, Some r, None))
   \<and> (\<exists>evs r. describe_workflow L c arguments' = (evs, Some r, None))
   \<and> (snd (string_assertion (arguments ''status'')) = False
          \<or> fst (string_assertion (arguments ''status'')) = [] \<longrightarrow>
        snd (list_workflows L c temporalNamespace arguments)
          = (Some (NewToolResultError ''Missing or invalid 'status' parameter''), None))
   \<and> (arguments ''status'' = Some (GoString statusVal) \<and> statusVal \<noteq> []
          \<and> strings_ToLower L statusVal \<notin> {''running'', ''completed'', ''failed''} \<longrightarrow>
        snd (list_workflows L c temporalNamespace arguments)
          = (Some (NewToolResultError
               (''Unsupported status '' @ [CHR 0x27] @ statusVal @ [CHR 0x27]
                  @ '' (use running, completed, or failed)'')), None))
   \<and> (arguments ''status'' = Some (GoString statusVal) \<and> statusVal \<noteq> []
          \<and> strings_ToLower L statusVal = ''running''
          \<and> snd (ListOpenWorkflow c (open_request temporalNamespace)) = Some err \<longrightarrow>
        snd (list_workflows L c temporalNamespace arguments)
          = (Some (NewToolResultError (''Failed to list running workflows: '' @ err)), None))
   \<and> (arguments ''status'' = Some (GoString statusVal) \<and> statusVal \<noteq> []
          \<and> strings_ToLower L statusVal \<in> {''completed'', ''failed''}
          \<and> snd (ListClosedWorkflow c (closed_request temporalNamespace)) = Some err \<longrightarrow>
        snd (list_workflows L c temporalNamespace arguments)
          = (Some (NewToolResultError
               (''Failed to list '' @ strings_ToLower L statusVal @ '' workflows: '' @ err)), None))
   \<and> (snd (string_assertion (arguments' ''workflow_id'')) = False
          \<or> fst (string_assertion (arguments' ''workflow_id'')) = [] \<longrightarrow>
        snd (describe_workflow L c arguments')
          = (Some (NewToolResultError ''Missing or invalid 'workflow_id' parameter''), None))
   \<and> (arguments' ''workflow_id'' = Some (GoString wfID) \<and> wfID \<noteq> []
          \<and> snd (DescribeWorkflowExecution c wfID (fst (string_assertion (arguments' ''run_id''))))
                = Some err' \<longrightarrow>
        snd (describe_workflow L c arguments')
          = (Some (NewToolResultError (''Failed to describe workflow: '' @ err')), None))
   \<and> (arguments' ''workflow_id'' = Some (GoString wfID) \<and> wfID \<noteq> []
          \<and> DescribeWorkflowExecution c wfID (fst (string_assertion (arguments' ''run_id'')))
                = (resp, None)
          \<and> GetWorkflowExecutionInfo resp = None \<longrightarrow>
        snd (describe_workflow L c arguments')
          = (Some (NewToolResultError ''No information available for the specified workflow''),
             None))"
proof (intro conjI impI)
  show "\<exists>evs r. list_workflows L c temporalNamespace arguments = (evs, Some r, None)"
    by (simp add: list_workflows_def Let_def split: prod.split sum.split)
  show "\<exists>evs r. describe_workflow L c arguments' = (evs, Some r, None)"
    by (simp add: describe_workflow_def Let_def split: prod.split option.split)
qed (auto simp: list_workflows_def list_executions_def list_open_def list_closed_def
       describe_workflow_def Let_def split: prod.splits option.splits)

theorem tool_failures_become_error_results_witness:
  "snd (list_workflows go_stdlib (failing_client ''context deadline exceeded'') ''default''
          [''status'' \<mapsto> GoString ''Failed''])
     = (Some (NewToolResultError ''Failed to list failed workflows: context deadline exceeded''),
        None)
   \<and> snd (describe_workflow go_stdlib (failing_client ''context deadline exceeded'')
          [''workflow_id'' \<mapsto> GoString ''order-1''])
     = (Some (NewToolResultError ''Failed to describe workflow: context deadline exceeded''),
        None)"
  using tool_failures_become_error_results
    [where L = go_stdlib and c = "failing_client ''context deadline exceeded''"
       and temporalNamespace = "''default''"
       and arguments = "[''status'' \<mapsto> GoString ''Failed'']" and statusVal = "''Failed''"
       and err = "''context deadline exceeded''"
       and arguments' = "[''workflow_id'' \<mapsto> GoString ''order-1'']" and wfID = "''order-1''"
       and err' = "''context deadline exceeded''"]
  by (simp add: go_stdlib_def ToLower_ascii_def lower_byte_def failing_client_def)

subsection \<open>C6: describing an execution that is not there\<close>

text \<open>
  C6. With a valid \<open>workflow_id\<close>, when the describe call returns an error (the way the
  backend reports that no such execution exists), or returns no error and a response
  without execution information (a nil response included), \<open>describe_workflow\<close> makes
  that one call and returns an error result carrying a message, with a nil Go error:
  the backend's error text after \<open>Failed to describe workflow: \<close> in the first case,
  \<open>No information available for the specified workflow\<close> in the second. It never
  returns a successful result there.
\<close>

theorem describe_workflow_not_found:
  assumes "arguments ''workflow_id'' = Some (GoString wfID)"
    and "wfID \<noteq> []"
    and "DescribeWorkflowExecution c wfID (fst (string_assertion (arguments ''run_id'')))
           = (resp, err)"
    and "err \<noteq> None \<or> GetWorkflowExecutionInfo resp = None"
  shows "\<exists>evs r. describe_workflow L c arguments = (evs, Some r, None)
           \<and> error_result r
           \<and> filter is_client_call evs
               = [Call_DescribeWorkflowExecution wfID (fst (string_assertion (arguments ''run_id'')))]
           \<and> r = (case err of
                     Some e \<Rightarrow> NewToolResultError (''Failed to describe workflow: '' @ e)
                   | None \<Rightarrow> NewToolResultError
                       ''No information available for the specified workflow'')"
  using assms
  by (cases err) (auto simp: describe_workflow_def Let_def)

theorem describe_workflow_not_found_witness:
  "(\<exists>evs r. describe_workflow go_stdlib (fake_client [] [])
                [''workflow_id'' \<mapsto> GoString ''missing-id''] = (evs, Some r, None)
           \<and> error_result r
           \<and> filter is_client_call evs = [Call_DescribeWorkflowExecution ''missing-id'' []]
           \<and> r = NewToolResultError ''Failed to describe workflow: workflow execution not found'')
   \<and> (\<exists>evs r. describe_workflow go_stdlib empty_response_client
                [''workflow_id'' \<mapsto> GoString ''missing-id''] = (evs, Some r, None)
           \<and> error_result r
           \<and> filter is_client_call evs = [Call_DescribeWorkflowExecution ''missing-id'' []]
           \<and> r = NewToolResultError ''No information available for the specified workflow'')"
  using describe_workflow_not_found
      [where L = go_stdlib and c = "fake_client [] []" and wfID = "''missing-id''"
         and arguments = "[''workflow_id'' \<mapsto> GoString ''missing-id'']"
         and resp = None and err = "Some ''workflow execution not found''"]
    describe_workflow_not_found
      [where L = go_stdlib and c = empty_response_client and wfID = "''missing-id''"
         and arguments = "[''workflow_id'' \<mapsto> GoString ''missing-id'']"
         and resp = "Some \<lparr>ResponseWorkflowExecutionInfo = None\<rparr>" and err = None]
  by (simp add: fake_client_def empty_response_client_def GetWorkflowExecutionInfo_def)

subsection \<open>C7: the End Time line of the detail text\<close>

text \<open>
  C7, as amended. The claim lets a reader recover the presence of the close time from the
  presence of an \<open>End Time\<close> line in the text, for every execution; a running execution
  whose workflow id contains a line break followed by \<open>End Time: \<close> has such a line and no
  close time. What holds: the text is always the block of header, Workflow ID, Run ID, Type,
  Status and Start Time, in this order, followed by \<open>End Time: \<close> and the rendered close
  time exactly when a close time is present and renders to a non-empty text (so an emitted
  end time is never empty). When identifier, run id and type name contain no line break
  and the time format always yields a non-empty text without line break, the lines of the
  text are these six lines, followed by the \<open>End Time\<close> line if and only if the close
  time is present, and then the text has a line starting with \<open>End Time: \<close> if and only
  if the close time is present.
\<close>

theorem render_detail_end_time_line:
  "render_detail L info
     = ''Workflow Execution Details:'' @ [CHR 0x0A]
       @ ''Workflow ID: '' @ GetWorkflowId (Execution info) @ [CHR 0x0A]
       @ ''Run ID: '' @ GetRunId (Execution info) @ [CHR 0x0A]
       @ ''Type: '' @ GetName (Type info) @ [CHR 0x0A]
       @ ''Status: '' @ workflowStatusToString (Status info) @ [CHR 0x0A]
       @ ''Start Time: ''
       @ (case StartTime info of None \<Rightarrow> [] | Some t \<Rightarrow> AsTime_Format L (Some t))
       @ [CHR 0x0A]
       @ (case CloseTime info of
            None \<Rightarrow> []
          | Some t \<Rightarrow>
              if AsTime_Format L (Some t) = [] then []
              else ''End Time: '' @ AsTime_Format L (Some t) @ [CHR 0x0A])
   \<and> (single_line_fields (Some info)
        \<and> (\<forall>s n. format_RFC3339 L s n \<noteq> [] \<and> CHR 0x0A \<notin> set (format_RFC3339 L s n)) \<longrightarrow>
       text_lines (render_detail L info)
         = [''Workflow Execution Details:'',
            ''Workflow ID: '' @ GetWorkflowId (Execution info),
            ''Run ID: '' @ GetRunId (Execution info),
            ''Type: '' @ GetName (Type info),
            ''Status: '' @ workflowStatusToString (Status info),
            ''Start Time: ''
              @ (case StartTime info of None \<Rightarrow> [] | Some t \<Rightarrow> AsTime_Format L (Some t))]
           @ (case CloseTime info of
                None \<Rightarrow> []
              | Some t \<Rightarrow> [''End Time: '' @ AsTime_Format L (Some t)])
       \<and> (has_end_time_line (render_detail L info) \<longleftrightarrow> CloseTime info \<noteq> None))"
proof (intro conjI impI)
  show shape: "render_detail L info
     = ''Workflow Execution Details:'' @ [CHR 0x0A]
       @ ''Workflow ID: '' @ GetWorkflowId (Execution info) @ [CHR 0x0A]
       @ ''Run ID: '' @ GetRunId (Execution info) @ [CHR 0x0A]
       @ ''Type: '' @ GetName (Type info) @ [CHR 0x0A]
       @ ''Status: '' @ workflowStatusToString (Status info) @ [CHR 0x0A]
       @ ''Start Time: ''
       @ (case StartTime info of None \<Rightarrow> [] | Some t \<Rightarrow> AsTime_Format L (Some t))
       @ [CHR 0x0A]
       @ (case CloseTime info of
            None \<Rightarrow> []
          | Some t \<Rightarrow>
              if AsTime_Format L (Some t) = [] then []
              else ''End Time: '' @ AsTime_Format L (Some t) @ [CHR 0x0A])"
    by (simp add: render_detail_def Let_def split: option.split)
  assume a: "single_line_fields (Some info)
        \<and> (\<forall>s n. format_RFC3339 L s n \<noteq> [] \<and> CHR 0x0A \<notin> set (format_RFC3339 L s n))"
  then have f: "CHR 0x0A \<notin> set (GetWorkflowId (Execution info))"
               "CHR 0x0A \<notin> set (GetRunId (Execution info))"
               "CHR 0x0A \<notin> set (GetName (Type info))"
    by (simp_all add: single_line_fields_def GetExecution_def GetType_def)
  from a have t: "AsTime_Format L ts \<noteq> []" "CHR 0x0A \<notin> set (AsTime_Format L ts)" for ts
    by (simp_all add: AsTime_Format_def)
  show lines: "text_lines (render_detail L info)
         = [''Workflow Execution Details:'',
            ''Workflow ID: '' @ GetWorkflowId (Execution info),
            ''Run ID: '' @ GetRunId (Execution info),
            ''Type: '' @ GetName (Type info),
            ''Status: '' @ workflowStatusToString (Status info),
            ''Start Time: ''
              @ (case StartTime info of None \<Rightarrow> [] | Some t \<Rightarrow> AsTime_Format L (Some t))]
           @ (case CloseTime info of
                None \<Rightarrow> []
              | Some t \<Rightarrow> [''End Time: '' @ AsTime_Format L (Some t)])"
    by (simp add: shape text_lines_line f t workflowStatusToString_single_line
          split: option.split)
  show "has_end_time_line (render_detail L info) \<longleftrightarrow> CloseTime info \<noteq> None"
    by (simp add: has_end_time_line_def lines split: option.split)
qed

theorem render_detail_end_time_line_witness:
  "text_lines (render_detail go_stdlib failed_execution)
     = [''Workflow Execution Details:'', ''Workflow ID: order-2'', ''Run ID: run-b'',
        ''Type: OrderWorkflow'', ''Status: Failed'', ''Start Time: 2024-01-01T00:30:00Z'',
        ''End Time: 2024-01-01T00:31:00Z'']
   \<and> has_end_time_line (render_detail go_stdlib failed_execution)
   \<and> text_lines (render_detail go_stdlib running_execution)
     = [''Workflow Execution Details:'', ''Workflow ID: order-3'', ''Run ID: run-c'',
        ''Type: OrderWorkflow'', ''Status: Running'', ''Start Time: 2024-01-01T00:00:00Z'']
   \<and> \<not> has_end_time_line (render_detail go_stdlib running_execution)"
proof -
  have lib: "\<forall>s n. format_RFC3339 go_stdlib s n \<noteq> []
               \<and> CHR 0x0A \<notin> set (format_RFC3339 go_stdlib s n)"
    by (simp add: go_stdlib_def rfc3339_utc_nonempty rfc3339_utc_single_line)
  have fields: "single_line_fields (Some failed_execution)"
               "single_line_fields (Some running_execution)"
    by code_simp+
  have times: "AsTime_Format go_stdlib (Some \<lparr>Seconds = 1704069000, Nanos = 0\<rparr>)
                 = ''2024-01-01T00:30:00Z''"
              "AsTime_Format go_stdlib (Some \<lparr>Seconds = 1704069060, Nanos = 0\<rparr>)
                 = ''2024-01-01T00:31:00Z''"
              "AsTime_Format go_stdlib (Some \<lparr>Seconds = 1704067200, Nanos = 0\<rparr>)
                 = ''2024-01-01T00:00:00Z''"
    by code_simp+
  note f = render_detail_end_time_line [of go_stdlib failed_execution, THEN conjunct2, rule_format]
  note r = render_detail_end_time_line [of go_stdlib running_execution, THEN conjunct2, rule_format]
  from f [OF conjI [OF fields(1) lib]] r [OF conjI [OF fields(2) lib]]
  show ?thesis
    by (simp add: failed_execution_def running_execution_def execution_def times
          GetWorkflowId_def GetRunId_def GetName_def)
qed

theorem render_detail_end_time_line_counterexample:
  "has_end_time_line (render_detail go_stdlib two_line_id_execution)
   \<and> CloseTime two_line_id_execution = None"
  by code_simp

subsection \<open>C8: the list keeps the order of the executions\<close>

lemma write_executions_concat:
  "write_executions L outputBuilder executions
     = outputBuilder @ concat (map (execution_line L) executions)"
  by (induction executions arbitrary: outputBuilder) simp_all

text \<open>The two formats of lines 133 and 138 differ only in the end time.\<close>

lemma execution_line_fields:
  "execution_line L info =
     ''- ID: '' @ GetWorkflowId (GetExecution info)
       @ '' | Run: '' @ GetRunId (GetExecution info)
       @ '' | Type: '' @ GetName (GetType info)
       @ '' | Status: '' @ workflowStatusToString (GetStatus info)
       @ '' | Start: '' @ AsTime_Format L (GetStartTime info)
       @ (case GetCloseTime info of
            None \<Rightarrow> []
          | Some t \<Rightarrow> '' | End: '' @ AsTime_Format L (Some t))
       @ [CHR 0x0A]"
  by (simp add: execution_line_def Let_def split: option.split)

lemma execution_line_single_line:
  assumes "single_line_fields info"
    and "\<forall>s n. CHR 0x0A \<notin> set (format_RFC3339 L s n)"
  shows "\<exists>l. execution_line L info = l @ [CHR 0x0A] \<and> CHR 0x0A \<notin> set l"
  using assms
  by (simp add: execution_line_fields single_line_fields_def AsTime_Format_def
        workflowStatusToString_single_line split: option.split)

lemma text_lines_execution_lines:
  assumes "\<forall>info \<in> set executions. single_line_fields info"
    and "\<forall>s n. CHR 0x0A \<notin> set (format_RFC3339 L s n)"
  shows "text_lines (concat (map (execution_line L) executions))
           = map (\<lambda>info. butlast (execution_line L info)) executions"
  using assms(1)
proof (induction executions)
  case Nil
  then show ?case by simp
next
  case (Cons info rest)
  then have "single_line_fields info" by simp
  from execution_line_single_line [OF this assms(2)]
  obtain l where l: "execution_line L info = l @ [CHR 0x0A]" "CHR 0x0A \<notin> set l"
    by blast
  with Cons show ?case
    by (simp add: text_lines_line)
qed

text \<open>
  C8, as amended. The claim promises exactly one line per summary after the header, for
  every non-empty list; lines 125 and 133-139 print identifier, run id and type name
  verbatim, so a single execution whose workflow id contains a line break is rendered on
  two lines. What holds: for a non-empty list of executions the rendered text is the
  header \<open>Found n status workflow(s):\<close>, with n the number of executions in decimal,
  followed by the entries of the executions in the order of the list, one entry per
  execution, with no reordering. An entry lists identifier, run id, type, status and
  start time, then the end time if and only if the close time is present, and ends with
  a newline. When the status label, the identifiers, run ids and type names and the
  rendered times contain no line break, the lines of the text are exactly the header and
  one line per execution, in order.
\<close>

theorem render_list_in_order:
  assumes "executions \<noteq> []"
  shows "render_list L statusFilter executions
           = NewToolResultText
               (''Found '' @ format_decimal (length executions) @ '' '' @ statusFilter
                  @ '' workflow(s):'' @ [CHR 0x0A]
                  @ concat (map (execution_line L) executions))
         \<and> (\<forall>info. execution_line L info =
               ''- ID: '' @ GetWorkflowId (GetExecution info)
                 @ '' | Run: '' @ GetRunId (GetExecution info)
                 @ '' | Type: '' @ GetName (GetType info)
                 @ '' | Status: '' @ workflowStatusToString (GetStatus info)
                 @ '' | Start: '' @ AsTime_Format L (GetStartTime info)
                 @ (case GetCloseTime info of
                      None \<Rightarrow> []
                    | Some t \<Rightarrow> '' | End: '' @ AsTime_Format L (Some t))
                 @ [CHR 0x0A])
         \<and> (CHR 0x0A \<notin> set statusFilter
              \<and> (\<forall>info \<in> set executions. single_line_fields info)
              \<and> (\<forall>s n. CHR 0x0A \<notin> set (format_RFC3339 L s n)) \<longrightarrow>
             text_lines
                 (''Found '' @ format_decimal (length executions) @ '' '' @ statusFilter
                    @ '' workflow(s):'' @ [CHR 0x0A]
                    @ concat (map (execution_line L) executions))
               = (''Found '' @ format_decimal (length executions) @ '' '' @ statusFilter
                    @ '' workflow(s):'')
                 # map (\<lambda>info. butlast (execution_line L info)) executions)"
proof (intro conjI allI impI)
  show "render_list L statusFilter executions
           = NewToolResultText
               (''Found '' @ format_decimal (length executions) @ '' '' @ statusFilter
                  @ '' workflow(s):'' @ [CHR 0x0A]
                  @ concat (map (execution_line L) executions))"
    using assms by (simp add: render_list_def write_executions_concat)
next
  fix info
  show "execution_line L info =
               ''- ID: '' @ GetWorkflowId (GetExecution info)
                 @ '' | Run: '' @ GetRunId (GetExecution info)
                 @ '' | Type: '' @ GetName (GetType info)
                 @ '' | Status: '' @ workflowStatusToString (GetStatus info)
                 @ '' | Start: '' @ AsTime_Format L (GetStartTime info)
                 @ (case GetCloseTime info of
                      None \<Rightarrow> []
                    | Some t \<Rightarrow> '' | End: '' @ AsTime_Format L (Some t))
                 @ [CHR 0x0A]"
    by (rule execution_line_fields)
next
  let ?h = "''Found '' @ format_decimal (length executions) @ '' '' @ statusFilter
              @ '' workflow(s):''"
  assume a: "CHR 0x0A \<notin> set statusFilter
              \<and> (\<forall>info \<in> set executions. single_line_fields info)
              \<and> (\<forall>s n. CHR 0x0A \<notin> set (format_RFC3339 L s n))"
  then have h: "CHR 0x0A \<notin> set ?h"
    by (simp add: format_decimal_single_line)
  from a have r: "text_lines (concat (map (execution_line L) executions))
                    = map (\<lambda>info. butlast (execution_line L info)) executions"
    by (intro text_lines_execution_lines) simp_all
  have "text_lines (?h @ CHR 0x0A # concat (map (execution_line L) executions))
          = ?h # text_lines (concat (map (execution_line L) executions))"
    using h by (rule text_lines_line)
  with r show "text_lines
                 (''Found '' @ format_decimal (length executions) @ '' '' @ statusFilter
                    @ '' workflow(s):'' @ [CHR 0x0A]
                    @ concat (map (execution_line L) executions))
               = ?h # map (\<lambda>info. butlast (execution_line L info)) executions"
    by simp
qed

theorem render_list_in_order_witness:
  "render_list go_stdlib ''completed'' [Some completed_execution, Some second_completed_execution]
     = NewToolResultText
         (''Found 2 completed workflow(s):'' @ [CHR 0x0A]
            @ ''- ID: order-1 | Run: run-a | Type: OrderWorkflow | Status: Completed''
            @ '' | Start: 2024-01-01T00:00:00Z | End: 2024-01-01T01:00:00Z'' @ [CHR 0x0A]
            @ ''- ID: order-0 | Run: run-z | Type: OrderWorkflow | Status: Completed''
            @ '' | Start: 2024-01-01T00:00:00Z | End: 2024-01-01T00:01:00Z'' @ [CHR 0x0A])
   \<and> render_list go_stdlib ''completed'' [Some second_completed_execution, Some completed_execution]
     = NewToolResultText
         (''Found 2 completed workflow(s):'' @ [CHR 0x0A]
            @ ''- ID: order-0 | Run: run-z | Type: OrderWorkflow | Status: Completed''
            @ '' | Start: 2024-01-01T00:00:00Z | End: 2024-01-01T00:01:00Z'' @ [CHR 0x0A]
            @ ''- ID: order-1 | Run: run-a | Type: OrderWorkflow | Status: Completed''
            @ '' | Start: 2024-01-01T00:00:00Z | End: 2024-01-01T01:00:00Z'' @ [CHR 0x0A])"
proof -
  have n: "format_decimal (Suc (Suc 0)) = ''2''"
    by code_simp
  have a: "execution_line go_stdlib (Some completed_execution)
             = ''- ID: order-1 | Run: run-a | Type: OrderWorkflow | Status: Completed''
               @ '' | Start: 2024-01-01T00:00:00Z | End: 2024-01-01T01:00:00Z'' @ [CHR 0x0A]"
    by code_simp
  have b: "execution_line go_stdlib (Some second_completed_execution)
             = ''- ID: order-0 | Run: run-z | Type: OrderWorkflow | Status: Completed''
               @ '' | Start: 2024-01-01T00:00:00Z | End: 2024-01-01T00:01:00Z'' @ [CHR 0x0A]"
    by code_simp
  have ne: "[Some completed_execution, Some second_completed_execution] \<noteq> []"
           "[Some second_completed_execution, Some completed_execution] \<noteq> []"
    by simp_all
  note t1 = render_list_in_order [OF ne(1), of go_stdlib "''completed''", THEN conjunct1]
  note t2 = render_list_in_order [OF ne(2), of go_stdlib "''completed''", THEN conjunct1]
  from t1 t2 show ?thesis
    by (simp add: n a b)
qed

theorem render_list_one_line_per_summary_counterexample:
  "render_list go_stdlib ''running'' [Some two_line_id_execution]
     = NewToolResultText
         (''Found 1 running workflow(s):'' @ [CHR 0x0A]
            @ ''- ID: order-4'' @ [CHR 0x0A]
            @ ''End Time: never | Run: run-d | Type: OrderWorkflow | Status: Running''
            @ '' | Start: 2024-01-01T00:00:00Z'' @ [CHR 0x0A])
   \<and> text_lines
         (''Found 1 running workflow(s):'' @ [CHR 0x0A]
            @ ''- ID: order-4'' @ [CHR 0x0A]
            @ ''End Time: never | Run: run-d | Type: OrderWorkflow | Status: Running''
            @ '' | Start: 2024-01-01T00:00:00Z'' @ [CHR 0x0A])
       = [''Found 1 running workflow(s):'',
          ''- ID: order-4'',
          ''End Time: never | Run: run-d | Type: OrderWorkflow | Status: Running''
            @ '' | Start: 2024-01-01T00:00:00Z'']
   \<and> length
         (text_lines
            (''Found 1 running workflow(s):'' @ [CHR 0x0A]
               @ ''- ID: order-4'' @ [CHR 0x0A]
               @ ''End Time: never | Run: run-d | Type: OrderWorkflow | Status: Running''
               @ '' | Start: 2024-01-01T00:00:00Z'' @ [CHR 0x0A]))
       \<noteq> 1 + length [Some two_line_id_execution]"
  by code_simp

subsection \<open>C9: one query, one page\<close>

text \<open>
  C9. Whatever the lower-cased status, lines 81-116 make at most one client call: for
  \<open>running\<close> exactly the open-executions query, for \<open>completed\<close> and \<open>failed\<close> exactly
  the closed-executions query, each with maximum page size 100 and an empty page token,
  and no call otherwise. The response's page token is never read. Hence, for a backend
  that returns at most as many executions as the page size it is asked for, the value of
  \<open>executions\<close> has at most 100 elements.
\<close>

theorem list_executions_single_bounded_query:
  assumes "\<forall>req resp. fst (ListOpenWorkflow c req) = Some resp \<longrightarrow>
             length (Executions resp) \<le> nat (MaximumPageSize req)"
    and "\<forall>req resp. fst (ListClosedWorkflow c req) = Some resp \<longrightarrow>
             length (Executions resp) \<le> nat (MaximumPageSize req)"
  shows "filter is_client_call (fst (list_executions c temporalNamespace statusVal statusFilter))
           = (if statusFilter = ''running'' then
                [Call_ListOpenWorkflow
                   \<lparr>Namespace = temporalNamespace, MaximumPageSize = 100, NextPageToken = [],
                    StartTimeFilter = None, OpenFilters = None\<rparr>]
              else if statusFilter = ''completed'' \<or> statusFilter = ''failed'' then
                [Call_ListClosedWorkflow
                   \<lparr>Namespace = temporalNamespace, MaximumPageSize = 100, NextPageToken = [],
                    StartTimeFilter = None, Filters = Some (StatusFilter None)\<rparr>]
              else [])
         \<and> (\<forall>executions.
               snd (list_executions c temporalNamespace statusVal statusFilter) = Inr executions
                 \<longrightarrow> length executions \<le> 100)"
proof (intro conjI allI impI)
  show "filter is_client_call (fst (list_executions c temporalNamespace statusVal statusFilter))
           = (if statusFilter = ''running'' then
                [Call_ListOpenWorkflow
                   \<lparr>Namespace = temporalNamespace, MaximumPageSize = 100, NextPageToken = [],
                    StartTimeFilter = None, OpenFilters = None\<rparr>]
              else if statusFilter = ''completed'' \<or> statusFilter = ''failed'' then
                [Call_ListClosedWorkflow
                   \<lparr>Namespace = temporalNamespace, MaximumPageSize = 100, NextPageToken = [],
                    StartTimeFilter = None, Filters = Some (StatusFilter None)\<rparr>]
              else [])"
    by (auto simp: list_executions_def list_open_def list_closed_def open_request_def
          closed_request_def split: prod.splits option.splits)
next
  fix executions
  assume r: "snd (list_executions c temporalNamespace statusVal statusFilter) = Inr executions"
  have bound_open: "length (GetExecutions (fst (ListOpenWorkflow c (open_request temporalNamespace)))) \<le> 100"
  proof (cases "fst (ListOpenWorkflow c (open_request temporalNamespace))")
    case None
    then show ?thesis by (simp add: GetExecutions_def)
  next
    case (Some resp)
    with assms(1) have "length (Executions resp) \<le> nat (MaximumPageSize (open_request temporalNamespace))"
      by blast
    with Some show ?thesis by (simp add: GetExecutions_def open_request_def)
  qed
  have bound_closed: "length (GetExecutions (fst (ListClosedWorkflow c (closed_request temporalNamespace)))) \<le> 100"
  proof (cases "fst (ListClosedWorkflow c (closed_request temporalNamespace))")
    case None
    then show ?thesis by (simp add: GetExecutions_def)
  next
    case (Some resp)
    with assms(2) have "length (Executions resp) \<le> nat (MaximumPageSize (closed_request temporalNamespace))"
      by blast
    with Some show ?thesis by (simp add: GetExecutions_def closed_request_def)
  qed
  from r bound_open bound_closed show "length executions \<le> 100"
    by (auto simp: list_executions_def list_open_def list_closed_def
          split: if_splits prod.splits option.splits)
qed

theorem list_executions_single_bounded_query_witness:
  "filter is_client_call
       (fst (list_executions (fake_client (replicate 150 running_execution) []) ''default''
               ''Running'' ''running''))
     = [Call_ListOpenWorkflow
          \<lparr>Namespace = ''default'', MaximumPageSize = 100, NextPageToken = [],
           StartTimeFilter = None, OpenFilters = None\<rparr>]
   \<and> snd (list_executions (fake_client (replicate 150 running_execution) []) ''default''
               ''Running'' ''running'')
       = Inr (replicate 100 (Some running_execution))
   \<and> length (replicate 100 (Some running_execution)) \<le> 100"
proof -
  let ?c = "fake_client (replicate 150 running_execution) []"
  have v: "snd (list_executions ?c ''default'' ''Running'' ''running'')
             = Inr (replicate 100 (Some running_execution))"
    by (simp add: list_executions_def list_open_def fake_client_def GetExecutions_def
          open_request_def)
  have o: "\<forall>req resp. fst (ListOpenWorkflow ?c req) = Some resp \<longrightarrow>
             length (Executions resp) \<le> nat (MaximumPageSize req)"
    by (auto simp: fake_client_def)
  have cl: "\<forall>req resp. fst (ListClosedWorkflow ?c req) = Some resp \<longrightarrow>
             length (Executions resp) \<le> nat (MaximumPageSize req)"
    by (auto simp: fake_client_def)
  from list_executions_single_bounded_query [OF o cl, of "''default''" "''Running''" "''running''"] v
  show ?thesis
    by simp
qed

subsection \<open>C10: a run\_id that is not a string\<close>

text \<open>
  C10. When the \<open>run_id\<close> argument is present but not a string, \<open>describe_workflow\<close>
  behaves exactly as it does on the same arguments without \<open>run_id\<close>: same effects, same
  result. In particular, with a valid \<open>workflow_id\<close> its first effect is the describe
  call with the empty run id, which is how the client is asked for the latest run.
\<close>

theorem describe_workflow_non_string_run_id:
  assumes "arguments ''run_id'' = Some v"
    and "\<forall>s. v \<noteq> GoString s"
  shows "describe_workflow L c arguments = describe_workflow L c (arguments(''run_id'' := None))
         \<and> (\<forall>wfID. arguments ''workflow_id'' = Some (GoString wfID) \<and> wfID \<noteq> [] \<longrightarrow>
               (\<exists>evs. fst (describe_workflow L c arguments)
                        = Call_DescribeWorkflowExecution wfID [] # evs))"
proof -
  have run: "string_assertion (arguments ''run_id'') = ([], False)"
    using assms by (cases v) simp_all
  show ?thesis
    by (auto simp: describe_workflow_def run Let_def split: prod.splits option.splits)
qed

theorem describe_workflow_non_string_run_id_witness:
  "describe_workflow go_stdlib (fake_client [] [])
       [''workflow_id'' \<mapsto> GoString ''order-1'', ''run_id'' \<mapsto> GoNumber 7]
     = describe_workflow go_stdlib (fake_client [] [])
         ([''workflow_id'' \<mapsto> GoString ''order-1'', ''run_id'' \<mapsto> GoNumber 7](''run_id'' := None))
   \<and> (\<exists>evs. fst (describe_workflow go_stdlib (fake_client [] [])
                     [''workflow_id'' \<mapsto> GoString ''order-1'', ''run_id'' \<mapsto> GoNumber 7])
              = Call_DescribeWorkflowExecution ''order-1'' [] # evs)"
proof -
  let ?a = "[''workflow_id'' \<mapsto> GoString ''order-1'', ''run_id'' \<mapsto> GoNumber 7]"
  have t: "describe_workflow go_stdlib (fake_client [] []) ?a
             = describe_workflow go_stdlib (fake_client [] []) (?a(''run_id'' := None))
           \<and> (\<forall>wfID. ?a ''workflow_id'' = Some (GoString wfID) \<and> wfID \<noteq> [] \<longrightarrow>
                 (\<exists>evs. fst (describe_workflow go_stdlib (fake_client [] []) ?a)
                          = Call_DescribeWorkflowExecution wfID [] # evs))"
    by (rule describe_workflow_non_string_run_id [where v = "GoNumber 7"]) simp_all
  have w: "?a ''workflow_id'' = Some (GoString ''order-1'') \<and> ''order-1'' \<noteq> []"
    by simp
  from t w show ?thesis
    by blast
qed

end
